theory Spec2Isabelle
  imports Main
begin

section \<open>JavaScript values and the host functions the framework calls\<close>

text \<open>
  The framework (\<^verbatim>\<open>src/halin.ts\<close>) passes untyped JavaScript values to
  \<^verbatim>\<open>typeof\<close>, \<^verbatim>\<open>String\<close> and \<^verbatim>\<open>JSON.stringify\<close>.  The values are modelled by
  a datatype; numbers are integers (floating point is left out), objects are association
  lists in insertion order, and characters are bytes.
\<close>

datatype jsval =
    JUndefined
  | JNull
  | JBool bool
  | JNum int
  | JStr string
  | JArr "jsval list"
  | JObj "(string \<times> jsval) list"

fun typeof :: "jsval \<Rightarrow> string" where
  "typeof JUndefined = ''undefined''"
| "typeof JNull = ''object''"
| "typeof (JBool b) = ''boolean''"
| "typeof (JNum n) = ''number''"
| "typeof (JStr s) = ''string''"
| "typeof (JArr vs) = ''object''"
| "typeof (JObj fs) = ''object''"

text \<open>Decimal numerals, as \<^verbatim>\<open>String(n)\<close> and \<^verbatim>\<open>JSON.stringify(n)\<close> print an integer.\<close>

fun show_nat :: "nat \<Rightarrow> string" where
  "show_nat n =
     (if n < 10 then [''0123456789'' ! n]
      else show_nat (n div 10) @ [''0123456789'' ! (n mod 10)])"

declare show_nat.simps [simp del]

definition show_int :: "int \<Rightarrow> string" where
  "show_int i = (if i < 0 then CHR ''-'' # show_nat (nat (- i)) else show_nat (nat i))"

fun intercalate :: "string \<Rightarrow> string list \<Rightarrow> string" where
  "intercalate sep [] = []"
| "intercalate sep [x] = x"
| "intercalate sep (x # y # ys) = x @ sep @ intercalate sep (y # ys)"

text \<open>
  \<^verbatim>\<open>JSON.stringify\<close> of a string: the double quote (0x22) and the backslash (0x5C) are
  escaped, the control characters below 0x20 are written with their short escape or as
  \<^verbatim>\<open>\u00XX\<close>.
\<close>

definition hex_digit :: "nat \<Rightarrow> char" where
  "hex_digit d = ''0123456789abcdef'' ! d"

definition json_escape_char :: "char \<Rightarrow> string" where
  "json_escape_char c =
     (if c = CHR 0x22 then [CHR 0x5C, CHR 0x22]
      else if c = CHR 0x5C then [CHR 0x5C, CHR 0x5C]
      else if c = CHR 0x08 then [CHR 0x5C, CHR ''b'']
      else if c = CHR 0x0C then [CHR 0x5C, CHR ''f'']
      else if c = CHR 0x0A then [CHR 0x5C, CHR ''n'']
      else if c = CHR 0x0D then [CHR 0x5C, CHR ''r'']
      else if c = CHR 0x09 then [CHR 0x5C, CHR ''t'']
      else if (of_char c :: nat) < 32
        then [CHR 0x5C, CHR ''u'', CHR ''0'', CHR ''0'',
              hex_digit (of_char c div 16), hex_digit (of_char c mod 16)]
      else [c])"

definition json_quote :: "string \<Rightarrow> string" where
  "json_quote s = CHR 0x22 # concat (map json_escape_char s) @ [CHR 0x22]"

text \<open>
  \<^verbatim>\<open>JSON.stringify(value)\<close>.  The result \<open>None\<close> is JavaScript's \<^verbatim>\<open>undefined\<close>
  (the result for \<^verbatim>\<open>undefined\<close> itself).  Inside an array \<^verbatim>\<open>undefined\<close> prints as
  \<^verbatim>\<open>null\<close>; inside an object the property is left out.
\<close>

fun stringify :: "jsval \<Rightarrow> string option"
  and stringify_elems :: "jsval list \<Rightarrow> string list"
  and stringify_props :: "(string \<times> jsval) list \<Rightarrow> string list" where
  "stringify JUndefined = None"
| "stringify JNull = Some ''null''"
| "stringify (JBool b) = Some (if b then ''true'' else ''false'')"
| "stringify (JNum n) = Some (show_int n)"
| "stringify (JStr s) = Some (json_quote s)"
| "stringify (JArr vs) = Some (''['' @ intercalate '','' (stringify_elems vs) @ '']'')"
| "stringify (JObj fs) = Some (''{'' @ intercalate '','' (stringify_props fs) @ ''}'')"
| "stringify_elems [] = []"
| "stringify_elems (v # vs) =
     (case stringify v of None \<Rightarrow> ''null'' | Some s \<Rightarrow> s) # stringify_elems vs"
| "stringify_props [] = []"
| "stringify_props (kv # fs) =
     (case stringify (snd kv) of
        None \<Rightarrow> stringify_props fs
      | Some s \<Rightarrow> (json_quote (fst kv) @ '':'' @ s) # stringify_props fs)"

text \<open>
  \<^verbatim>\<open>String(value)\<close>.  An array joins its elements with a comma (\<^verbatim>\<open>null\<close> and
  \<^verbatim>\<open>undefined\<close> elements print as the empty string); a plain object prints as
  \<^verbatim>\<open>[object Object]\<close>.
\<close>

fun String_of :: "jsval \<Rightarrow> string"
  and String_of_elems :: "jsval list \<Rightarrow> string list" where
  "String_of JUndefined = ''undefined''"
| "String_of JNull = ''null''"
| "String_of (JBool b) = (if b then ''true'' else ''false'')"
| "String_of (JNum n) = show_int n"
| "String_of (JStr s) = s"
| "String_of (JArr vs) = intercalate '','' (String_of_elems vs)"
| "String_of (JObj fs) = ''[object Object]''"
| "String_of_elems [] = []"
| "String_of_elems (v # vs) =
     (case v of JUndefined \<Rightarrow> [] | JNull \<Rightarrow> [] | _ \<Rightarrow> String_of v) # String_of_elems vs"

subsection \<open>Case conversion and header maps\<close>

definition toLowerCase_char :: "char \<Rightarrow> char" where
  "toLowerCase_char c =
     (case map_of (zip ''ABCDEFGHIJKLMNOPQRSTUVWXYZ'' ''abcdefghijklmnopqrstuvwxyz'') c of
        Some d \<Rightarrow> d | None \<Rightarrow> c)"

definition toUpperCase_char :: "char \<Rightarrow> char" where
  "toUpperCase_char c =
     (case map_of (zip ''abcdefghijklmnopqrstuvwxyz'' ''ABCDEFGHIJKLMNOPQRSTUVWXYZ'') c of
        Some d \<Rightarrow> d | None \<Rightarrow> c)"

definition toLowerCase :: "string \<Rightarrow> string" where
  "toLowerCase s = map toLowerCase_char s"

definition toUpperCase :: "string \<Rightarrow> string" where
  "toUpperCase s = map toUpperCase_char s"

text \<open>
  The host's \<^verbatim>\<open>Headers\<close> object: names are case-insensitive, \<^verbatim>\<open>set\<close> overwrites the
  value stored under the name.  A header map is a map from the lower-cased name.
\<close>

type_synonym headers = "string \<rightharpoonup> string"

definition headers_set :: "string \<Rightarrow> string \<Rightarrow> headers \<Rightarrow> headers" where
  "headers_set name v hs = hs(toLowerCase name \<mapsto> v)"

definition headers_get :: "headers \<Rightarrow> string \<Rightarrow> string option" where
  "headers_get hs name = hs (toLowerCase name)"

text \<open>\<^verbatim>\<open>new Headers({...})\<close> from a list of name/value pairs.\<close>

definition headers_of :: "(string \<times> string) list \<Rightarrow> headers" where
  "headers_of kvs = fold (\<lambda>kv hs. headers_set (fst kv) (snd kv) hs) kvs Map.empty"

subsection \<open>Byte streams\<close>

text \<open>
  A \<^verbatim>\<open>ReadableStream\<close> with its default controller: the chunks enqueued so far, whether
  the stream has been closed, and how many times the controller accepted \<^verbatim>\<open>close()\<close>
  (the finalize signals the consumer sees).  The host's controller throws a
  \<^verbatim>\<open>TypeError\<close> when \<^verbatim>\<open>enqueue\<close> or \<^verbatim>\<open>close\<close> is called on a closed stream.
\<close>

record readable_stream =
  chunks :: "string list"
  stream_closed :: bool
  finalized :: nat

definition new_stream :: readable_stream where
  "new_stream = \<lparr>chunks = [], stream_closed = False, finalized = 0\<rparr>"

datatype host_error = TypeError

definition controller_enqueue :: "string \<Rightarrow> readable_stream \<Rightarrow> host_error + readable_stream" where
  "controller_enqueue chunk s =
     (if stream_closed s then Inl TypeError else Inr (s\<lparr>chunks := chunks s @ [chunk]\<rparr>))"

definition controller_close :: "readable_stream \<Rightarrow> host_error + readable_stream" where
  "controller_close s =
     (if stream_closed s then Inl TypeError
      else Inr (s\<lparr>stream_closed := True, finalized := finalized s + 1\<rparr>))"

section \<open>Response builder\<close>

text \<open>
  The \<^verbatim>\<open>res\<close> object literal built by \<^verbatim>\<open>listen\<close> and \<^verbatim>\<open>handle\<close> (the same in both
  and in both copies of the file): \<^verbatim>\<open>statusCode\<close>, \<^verbatim>\<open>headers\<close>, \<^verbatim>\<open>body\<close> and the
  fluent methods, each returning the updated object.
\<close>

datatype body = BNull | BUndefined | BText string | BStream readable_stream

record response =
  statusCode :: int
  headers :: headers
  body :: body

definition new_response :: response where
  "new_response = \<lparr>statusCode = 200, headers = Map.empty, body = BNull\<rparr>"

definition res_status :: "int \<Rightarrow> response \<Rightarrow> response" where
  "res_status code res = res\<lparr>statusCode := code\<rparr>"

definition res_header :: "string \<Rightarrow> string \<Rightarrow> response \<Rightarrow> response" where
  "res_header name v res = res\<lparr>headers := headers_set name v (headers res)\<rparr>"

definition res_json :: "jsval \<Rightarrow> response \<Rightarrow> response" where
  "res_json data res =
     (res_header ''Content-Type'' ''application/json'' res)
       \<lparr>body := (case stringify data of None \<Rightarrow> BUndefined | Some s \<Rightarrow> BText s)\<rparr>"

definition res_text :: "string \<Rightarrow> response \<Rightarrow> response" where
  "res_text data res = (res_header ''Content-Type'' ''text/plain'' res)\<lparr>body := BText data\<rparr>"

definition res_send :: "jsval \<Rightarrow> response \<Rightarrow> response" where
  "res_send data res =
     (if typeof data = ''object'' then res_json data res else res_text (String_of data) res)"

definition res_stream :: "readable_stream \<Rightarrow> response \<Rightarrow> response" where
  "res_stream s res = res\<lparr>body := BStream s\<rparr>"

section \<open>SSE writer\<close>

text \<open>
  Class \<^verbatim>\<open>SSEWriter\<close> of the first copy of \<^verbatim>\<open>halin.ts\<close> (lines 53 to 126).  The
  private \<^verbatim>\<open>controller\<close> gives access to the writer's own stream; \<^verbatim>\<open>this.body\<close> is that
  stream until \<^verbatim>\<open>stream()\<close> replaces it.  A method returns its completion (a value, or
  the host error that escaped it) together with the writer as the call left it.
\<close>

record SSEWriter =
  sse_statusCode :: int
  sse_headers :: headers
  replaced_body :: "readable_stream option"
  controller :: readable_stream
  closed :: bool

datatype 'a completion = Returned 'a | Threw host_error

definition new_SSEWriter :: SSEWriter where
  "new_SSEWriter =
     \<lparr>sse_statusCode = 200,
      sse_headers =
        headers_set ''Content-Type'' ''text/event-stream''
          (headers_of [(''Content-Type'', ''text/event-stream''),
                       (''Cache-Control'', ''no-cache''),
                       (''Connection'', ''keep-alive'')]),
      replaced_body = None,
      controller = new_stream,
      closed = False\<rparr>"

definition sse_body :: "SSEWriter \<Rightarrow> readable_stream" where
  "sse_body w = (case replaced_body w of None \<Rightarrow> controller w | Some s \<Rightarrow> s)"

definition sse_message :: "jsval \<Rightarrow> string" where
  "sse_message data =
     (if typeof data = ''string'' then String_of data
      else (case stringify data of None \<Rightarrow> ''undefined'' | Some s \<Rightarrow> s))"

definition SSEWriter_send :: "jsval \<Rightarrow> SSEWriter \<Rightarrow> bool completion \<times> SSEWriter" where
  "SSEWriter_send data w =
     (if closed w then (Returned False, w)
      else
        (case controller_enqueue (''data: '' @ sse_message data @ [CHR 0x0A, CHR 0x0A])
                (controller w) of
           Inl e \<Rightarrow> (Threw e, w)
         | Inr s \<Rightarrow> (Returned True, w\<lparr>controller := s\<rparr>)))"

definition SSEWriter_close :: "SSEWriter \<Rightarrow> unit completion \<times> SSEWriter" where
  "SSEWriter_close w =
     (if \<not> closed w then
        (case controller_close (controller w) of
           Inl e \<Rightarrow> (Threw e, w\<lparr>closed := True\<rparr>)
         | Inr s \<Rightarrow> (Returned (), w\<lparr>closed := True, controller := s\<rparr>))
      else (Returned (), w))"

text \<open>
  The \<^verbatim>\<open>cancel()\<close> callback of the stream, which the host runs when the consumer cancels:
  the host has closed the stream, the callback sets \<^verbatim>\<open>closed\<close>.
\<close>

definition SSEWriter_cancel :: "SSEWriter \<Rightarrow> SSEWriter" where
  "SSEWriter_cancel w = w\<lparr>closed := True, controller := (controller w)\<lparr>stream_closed := True\<rparr>\<rparr>"

definition SSEWriter_status :: "int \<Rightarrow> SSEWriter \<Rightarrow> SSEWriter" where
  "SSEWriter_status code w = w\<lparr>sse_statusCode := code\<rparr>"

definition SSEWriter_header :: "string \<Rightarrow> string \<Rightarrow> SSEWriter \<Rightarrow> SSEWriter" where
  "SSEWriter_header name v w = w\<lparr>sse_headers := headers_set name v (sse_headers w)\<rparr>"

definition SSEWriter_stream :: "readable_stream \<Rightarrow> SSEWriter \<Rightarrow> SSEWriter" where
  "SSEWriter_stream s w = w\<lparr>replaced_body := Some s\<rparr>"


text \<open>
  What the owner of a writer and the host can do to it, one call at a time.  \<open>sse_run\<close>
  performs a sequence of calls and reports whether any of them threw.
\<close>

datatype sse_call =
    Send jsval | Close | Cancel | Status int | Header string string
  | Json jsval | Text string | Stream readable_stream

fun do_call :: "sse_call \<Rightarrow> SSEWriter \<Rightarrow> bool \<times> SSEWriter" where
  "do_call (Send d) w =
     (case SSEWriter_send d w of (Threw e, w') \<Rightarrow> (True, w') | (Returned b, w') \<Rightarrow> (False, w'))"
| "do_call Close w =
     (case SSEWriter_close w of (Threw e, w') \<Rightarrow> (True, w') | (Returned u, w') \<Rightarrow> (False, w'))"
| "do_call Cancel w = (False, SSEWriter_cancel w)"
| "do_call (Status code) w = (False, SSEWriter_status code w)"
| "do_call (Header name v) w = (False, SSEWriter_header name v w)"
| "do_call (Json d) w =
     (case SSEWriter_send d w of (Threw e, w') \<Rightarrow> (True, w') | (Returned b, w') \<Rightarrow> (False, w'))"
| "do_call (Text d) w =
     (case SSEWriter_send (JStr d) w of
        (Threw e, w') \<Rightarrow> (True, w') | (Returned b, w') \<Rightarrow> (False, w'))"
| "do_call (Stream s) w = (False, SSEWriter_stream s w)"

fun sse_run :: "sse_call list \<Rightarrow> bool \<times> SSEWriter \<Rightarrow> bool \<times> SSEWriter" where
  "sse_run [] r = r"
| "sse_run (c # cs) r =
     (case do_call c (snd r) of (threw, w') \<Rightarrow> sse_run cs (fst r \<or> threw, w'))"


section \<open>Requests, handlers and thrown values\<close>

text \<open>
  What a handler can throw: a \<^verbatim>\<open>HalinError\<close> (status code and message), any other
  \<^verbatim>\<open>Error\<close> (its message), or a value that is no \<^verbatim>\<open>Error\<close> at all; of the last kind
  the model has the thrown strings.
\<close>

datatype exn = HalinError int string | Error string | NonError string

fun instanceof_HalinError :: "exn \<Rightarrow> bool" where
  "instanceof_HalinError (HalinError code m) = True"
| "instanceof_HalinError (Error m) = False"
| "instanceof_HalinError (NonError v) = False"

fun instanceof_Error :: "exn \<Rightarrow> bool" where
  "instanceof_Error (HalinError code m) = True"
| "instanceof_Error (Error m) = True"
| "instanceof_Error (NonError v) = False"

text \<open>\<^verbatim>\<open>error.message\<close>; a string primitive has no such property (\<^verbatim>\<open>undefined\<close>).\<close>

fun message :: "exn \<Rightarrow> string option" where
  "message (HalinError code m) = Some m"
| "message (Error m) = Some m"
| "message (NonError v) = None"

text \<open>The text a template literal prints for \<^verbatim>\<open>${error.message}\<close>.\<close>

definition message_text :: "exn \<Rightarrow> string" where
  "message_text e = (case message e of None \<Rightarrow> ''undefined'' | Some m \<Rightarrow> m)"

text \<open>\<^verbatim>\<open>err instanceof Error ? err : new Error(String(err))\<close>\<close>

definition to_Error :: "exn \<Rightarrow> exn" where
  "to_Error err = (if instanceof_Error err then err else (case err of NonError v \<Rightarrow> Error v | _ \<Rightarrow> err))"

text \<open>
  The framework's \<^verbatim>\<open>Request\<close> object.  The fields \<^verbatim>\<open>raw\<close> and (second copy)
  \<^verbatim>\<open>json\<close> are left out: the framework never reads them.  A parameter value is a
  JavaScript value, since a capture group that did not take part in the match is
  \<^verbatim>\<open>undefined\<close>.
\<close>

record request =
  req_method :: string
  req_url :: string
  req_path :: string
  params :: "string \<rightharpoonup> jsval"
  query :: "string \<rightharpoonup> string"
  req_headers :: headers
  req_body :: jsval

text \<open>
  The transport request the host hands to \<^verbatim>\<open>listen\<close>'s \<^verbatim>\<open>fetch\<close> and to \<^verbatim>\<open>handle\<close>:
  the parts of it the framework reads.  \<open>pathname\<close> and \<open>searchParams\<close> are what the host's
  \<^verbatim>\<open>new URL(request.url)\<close> gives.  A body, when there is one, is given by what the host's
  three readers produce for it; \<open>Inl m\<close> is a reader that rejects with an \<^verbatim>\<open>Error\<close> of
  message \<open>m\<close>.
\<close>

record raw_body =
  read_json :: "string + jsval"
  read_formData :: "string + (string \<times> string) list"
  read_text :: string

record raw_request =
  raw_method :: string
  raw_url :: string
  pathname :: string
  searchParams :: "(string \<times> string) list"
  raw_headers :: headers
  raw_body :: "raw_body option"

text \<open>\<^verbatim>\<open>Object.fromEntries\<close>: a later entry overwrites an earlier one of the same key.\<close>

definition fromEntries :: "(string \<times> 'v) list \<Rightarrow> (string \<rightharpoonup> 'v)" where
  "fromEntries kvs = fold (\<lambda>kv m. m(fst kv \<mapsto> snd kv)) kvs Map.empty"

text \<open>\<^verbatim>\<open>s.includes(t)\<close>\<close>

fun str_includes :: "string \<Rightarrow> string \<Rightarrow> bool" where
  "str_includes [] t = (t = [])"
| "str_includes (c # cs) t = (take (length t) (c # cs) = t \<or> str_includes cs t)"

text \<open>
  What the handlers of one request share: the request object, the response object, and
  the variable \<^verbatim>\<open>currentResponse\<close> of the enclosing \<^verbatim>\<open>handle\<close> or \<^verbatim>\<open>fetch\<close>, which
  \<^verbatim>\<open>res.sse()\<close> sets to the writer it creates.
\<close>

record world =
  req :: request
  res :: response
  currentResponse :: "SSEWriter option"

definition res_sse :: "world \<Rightarrow> world" where
  "res_sse w = w\<lparr>currentResponse := Some new_SSEWriter\<rparr>"

text \<open>
  A handler is JavaScript code of the application.  Run on the shared objects, it either
  returns, or throws, or calls \<^verbatim>\<open>next()\<close>; in the last case it goes on, once that call
  has settled, from what the call did: the rejection of the promise (\<open>None\<close> when it was
  fulfilled) and the shared objects as the call left them.  A handler that does not await
  \<^verbatim>\<open>next()\<close> is outside this model, as is one that does not terminate.
\<close>

datatype step =
    is_Done: Done world
  | is_Throw: Throw exn world
  | is_CallNext: CallNext world "exn option \<Rightarrow> world \<Rightarrow> step"

type_synonym handler = "world \<Rightarrow> step"

type_synonym error_handler = "exn \<Rightarrow> world \<Rightarrow> step"

section \<open>Regular expressions of the host\<close>

text \<open>
  \<^verbatim>\<open>pathToPattern\<close> hands a string to \<^verbatim>\<open>new RegExp\<close>, and \<^verbatim>\<open>extractParams\<close> calls
  \<^verbatim>\<open>String.prototype.match\<close> with the result.  The regular-expression engine is the
  host's.  The model has the part of the ECMAScript pattern language the framework can
  reach without a backslash: pattern characters, \<^verbatim>\<open>.\<close>, the assertions \<^verbatim>\<open>^\<close> and
  \<^verbatim>\<open>$\<close>, capturing groups, alternatives, character classes without ranges, and the
  greedy quantifiers \<^verbatim>\<open>*\<close>, \<^verbatim>\<open>+\<close> and \<^verbatim>\<open>?\<close>.
\<close>

datatype rx =
    RChar char
  | RAny
  | RClass bool "char list"
  | RBol
  | REol
  | REmpty
  | RSeq rx rx
  | RAlt rx rx
  | RGroup nat rx
  | RStar rx
  | RPlus rx
  | ROpt rx

text \<open>
  The matcher follows the continuation-passing semantics of the language definition.  A
  state is the rest of the input and the captures (group \<open>i + 1\<close> at position \<open>i\<close>,
  \<open>None\<close> for \<^verbatim>\<open>undefined\<close>); a matcher gets a state and a continuation and returns the
  final state, or \<open>None\<close> when every alternative failed.
\<close>

type_synonym mstate = "string \<times> string option list"

type_synonym mcont = "mstate \<Rightarrow> mstate option"

type_synonym matcher = "mstate \<Rightarrow> mcont \<Rightarrow> mstate option"

primrec groups :: "rx \<Rightarrow> nat list" where
  "groups (RChar c) = []"
| "groups RAny = []"
| "groups (RClass neg cs) = []"
| "groups RBol = []"
| "groups REol = []"
| "groups REmpty = []"
| "groups (RSeq a b) = groups a @ groups b"
| "groups (RAlt a b) = groups a @ groups b"
| "groups (RGroup i a) = i # groups a"
| "groups (RStar a) = groups a"
| "groups (RPlus a) = groups a"
| "groups (ROpt a) = groups a"

text \<open>Each iteration of a quantified atom starts with the atom's own captures cleared.\<close>

definition reset :: "nat list \<Rightarrow> mstate \<Rightarrow> mstate" where
  "reset gs x = (fst x, fold (\<lambda>i caps. caps[i := None]) gs (snd x))"

text \<open>
  The language's \<^verbatim>\<open>RepeatMatcher\<close> for \<^verbatim>\<open>*\<close>: try one more iteration, which must
  consume input (an iteration that ends where it began fails), and fall back to the
  continuation.
\<close>

function star :: "matcher \<Rightarrow> nat list \<Rightarrow> mstate \<Rightarrow> mcont \<Rightarrow> mstate option" where
  "star m gs x c =
     (case m (reset gs x)
             (\<lambda>y. if length (fst y) < length (fst x) then star m gs y c else None) of
        Some z \<Rightarrow> Some z
      | None \<Rightarrow> c x)"
  by pat_completeness auto
termination
  by (relation "measure (\<lambda>(m, gs, x, c). length (fst x))") auto

declare star.simps [simp del]

text \<open>\<open>n\<close> is the length of the whole input: \<^verbatim>\<open>^\<close> holds where nothing has been consumed.\<close>

primrec matcher_of :: "rx \<Rightarrow> nat \<Rightarrow> matcher" where
  "matcher_of (RChar c) n = (\<lambda>x k.
     case fst x of [] \<Rightarrow> None | d # ds \<Rightarrow> if d = c then k (ds, snd x) else None)"
| "matcher_of RAny n = (\<lambda>x k.
     case fst x of
       [] \<Rightarrow> None
     | d # ds \<Rightarrow> if d = CHR 0x0A \<or> d = CHR 0x0D then None else k (ds, snd x))"
| "matcher_of (RClass neg cs) n = (\<lambda>x k.
     case fst x of
       [] \<Rightarrow> None
     | d # ds \<Rightarrow> if (d \<in> set cs) \<noteq> neg then k (ds, snd x) else None)"
| "matcher_of RBol n = (\<lambda>x k. if length (fst x) = n then k x else None)"
| "matcher_of REol n = (\<lambda>x k. if fst x = [] then k x else None)"
| "matcher_of REmpty n = (\<lambda>x k. k x)"
| "matcher_of (RSeq a b) n = (\<lambda>x k. matcher_of a n x (\<lambda>y. matcher_of b n y k))"
| "matcher_of (RAlt a b) n = (\<lambda>x k.
     case matcher_of a n x k of Some z \<Rightarrow> Some z | None \<Rightarrow> matcher_of b n x k)"
| "matcher_of (RGroup i a) n = (\<lambda>x k.
     matcher_of a n x
       (\<lambda>y. k (fst y, (snd y)[i := Some (take (length (fst x) - length (fst y)) (fst x))])))"
| "matcher_of (RStar a) n = (\<lambda>x k. star (matcher_of a n) (groups a) x k)"
| "matcher_of (RPlus a) n = (\<lambda>x k.
     matcher_of a n (reset (groups a) x) (\<lambda>y. star (matcher_of a n) (groups a) y k))"
| "matcher_of (ROpt a) n = (\<lambda>x k.
     case matcher_of a n (reset (groups a) x)
            (\<lambda>y. if length (fst y) < length (fst x) then k y else None) of
       Some z \<Rightarrow> Some z
     | None \<Rightarrow> k x)"

text \<open>
  The parser reads the pattern's characters from left to right.  It keeps a stack of open
  groups, each with its number, its finished alternatives and the terms of the alternative
  being read (both latest first); the number of groups opened so far; and, inside a
  character class, the class read so far.  \<open>SyntaxError\<close> is the error the host throws.
  \<open>Unsupported\<close> marks a pattern that leaves the modelled part of the language (a
  backslash, a brace, \<^verbatim>\<open>(?\<close>, a lazy quantifier, a range in a class, a closing
  bracket outside a class): of those the model says nothing.
\<close>

datatype tag = Atom | Quantified | Assertion

type_synonym frame = "nat \<times> rx list \<times> (rx \<times> tag) list"

datatype cls_mode = Outside | ClsStart | ClsBody bool "char list"

type_synonym pstate = "frame list \<times> nat \<times> cls_mode"

datatype 'a attempt = Ok 'a | SyntaxError | Unsupported

definition mk_seq :: "rx list \<Rightarrow> rx" where
  "mk_seq as = foldr RSeq as REmpty"

fun mk_alt :: "rx list \<Rightarrow> rx" where
  "mk_alt [] = REmpty"
| "mk_alt [a] = a"
| "mk_alt (a # b # bs) = RAlt a (mk_alt (b # bs))"

definition close_frame :: "frame \<Rightarrow> rx" where
  "close_frame f =
     (case f of (g, alts, items) \<Rightarrow> mk_alt (rev (mk_seq (rev (map fst items)) # alts)))"

definition add_item :: "rx \<times> tag \<Rightarrow> frame list \<Rightarrow> nat \<Rightarrow> pstate attempt" where
  "add_item it fs ng =
     (case fs of
        [] \<Rightarrow> SyntaxError
      | (g, alts, items) # rest \<Rightarrow> Ok ((g, alts, it # items) # rest, ng, Outside))"

definition cls_char :: "char \<Rightarrow> bool \<Rightarrow> char list \<Rightarrow> frame list \<Rightarrow> nat \<Rightarrow> pstate attempt" where
  "cls_char c neg cs fs ng =
     (if c = CHR '']'' then add_item (RClass neg (rev cs), Atom) fs ng
      else if c = CHR 0x5C \<or> c = CHR ''-'' then Unsupported
      else Ok (fs, ng, ClsBody neg (c # cs)))"

definition quantifier :: "char \<Rightarrow> rx \<Rightarrow> rx" where
  "quantifier c a = (if c = CHR ''*'' then RStar a else if c = CHR ''+'' then RPlus a else ROpt a)"

definition quantify :: "char \<Rightarrow> frame list \<Rightarrow> nat \<Rightarrow> pstate attempt" where
  "quantify c fs ng =
     (case fs of
        [] \<Rightarrow> SyntaxError
      | (g, alts, []) # rest \<Rightarrow>
          if c = CHR ''?'' \<and> alts = [] \<and> rest \<noteq> [] then Unsupported else SyntaxError
      | (g, alts, (a, Atom) # items) # rest \<Rightarrow>
          Ok ((g, alts, (quantifier c a, Quantified) # items) # rest, ng, Outside)
      | (g, alts, (a, Quantified) # items) # rest \<Rightarrow>
          if c = CHR ''?'' then Unsupported else SyntaxError
      | (g, alts, (a, Assertion) # items) # rest \<Rightarrow> SyntaxError)"

definition outside_char :: "char \<Rightarrow> frame list \<Rightarrow> nat \<Rightarrow> pstate attempt" where
  "outside_char c fs ng =
     (if c = CHR ''('' then Ok ((ng, [], []) # fs, ng + 1, Outside)
      else if c = CHR '')'' then
        (case fs of
           f # (g, alts, items) # rest \<Rightarrow>
             Ok ((g, alts, (RGroup (fst f) (close_frame f), Atom) # items) # rest, ng, Outside)
         | _ \<Rightarrow> SyntaxError)
      else if c = CHR ''|'' then
        (case fs of
           (g, alts, items) # rest \<Rightarrow>
             Ok ((g, mk_seq (rev (map fst items)) # alts, []) # rest, ng, Outside)
         | [] \<Rightarrow> SyntaxError)
      else if c = CHR ''*'' \<or> c = CHR ''+'' \<or> c = CHR ''?'' then quantify c fs ng
      else if c = CHR ''.'' then add_item (RAny, Atom) fs ng
      else if c = CHR ''^'' then add_item (RBol, Assertion) fs ng
      else if c = CHR ''$'' then add_item (REol, Assertion) fs ng
      else if c = CHR ''['' then Ok (fs, ng, ClsStart)
      else if c = CHR 0x5C \<or> c = CHR ''{'' \<or> c = CHR ''}'' \<or> c = CHR '']'' then Unsupported
      else add_item (RChar c, Atom) fs ng)"

definition parse_char :: "char \<Rightarrow> pstate \<Rightarrow> pstate attempt" where
  "parse_char c st =
     (case st of (fs, ng, mode) \<Rightarrow>
        (case mode of
           Outside \<Rightarrow> outside_char c fs ng
         | ClsStart \<Rightarrow>
             if c = CHR ''^'' then Ok (fs, ng, ClsBody True []) else cls_char c False [] fs ng
         | ClsBody neg cs \<Rightarrow> cls_char c neg cs fs ng))"

fun parse_chars :: "string \<Rightarrow> pstate \<Rightarrow> pstate attempt" where
  "parse_chars [] st = Ok st"
| "parse_chars (c # cs) st =
     (case parse_char c st of
        Ok st' \<Rightarrow> parse_chars cs st'
      | SyntaxError \<Rightarrow> SyntaxError
      | Unsupported \<Rightarrow> Unsupported)"

record RegExp =
  ast :: rx
  ngroups :: nat

definition new_RegExp :: "string \<Rightarrow> RegExp attempt" where
  "new_RegExp src =
     (case parse_chars src ([(0, [], [])], 0, Outside) of
        Ok (fs, ng, mode) \<Rightarrow>
          (case (fs, mode) of
             ([f], Outside) \<Rightarrow> Ok \<lparr>ast = close_frame f, ngroups = ng\<rparr>
           | _ \<Rightarrow> SyntaxError)
      | SyntaxError \<Rightarrow> SyntaxError
      | Unsupported \<Rightarrow> Unsupported)"

text \<open>
  \<^verbatim>\<open>path.match(pattern)\<close> for a pattern without flags: the first start position, from
  the left, at which the pattern matches.  The result is the array of the match (the
  matched text, then the captures), or \<open>None\<close> for \<^verbatim>\<open>null\<close>.
\<close>

fun scan :: "rx \<Rightarrow> nat \<Rightarrow> nat \<Rightarrow> string \<Rightarrow> string option list option" where
  "scan r ng n [] =
     (case matcher_of r n ([], replicate ng None) Some of
        Some y \<Rightarrow> Some (Some [] # snd y)
      | None \<Rightarrow> None)"
| "scan r ng n (c # cs) =
     (case matcher_of r n (c # cs, replicate ng None) Some of
        Some y \<Rightarrow> Some (Some (take (length (c # cs) - length (fst y)) (c # cs)) # snd y)
      | None \<Rightarrow> scan r ng n cs)"

definition match :: "string \<Rightarrow> RegExp \<Rightarrow> string option list option" where
  "match s re = scan (ast re) (ngroups re) (length s) s"

section \<open>Pattern compiler and route table\<close>

text \<open>
  \<^verbatim>\<open>path.replace(/\/:([^/]+)/g, '/([^/]+)')\<close>: from the left, every \<^verbatim>\<open>/:\<close> that is
  followed by at least one character other than \<^verbatim>\<open>/\<close> is replaced, together with all
  such characters that follow.
\<close>

function replace_params :: "string \<Rightarrow> string" where
  "replace_params [] = []"
| "replace_params (c # cs) =
     (case cs of
        d # e # es \<Rightarrow>
          if c = CHR ''/'' \<and> d = CHR '':'' \<and> e \<noteq> CHR ''/''
          then ''/([^/]+)'' @ replace_params (dropWhile (\<lambda>x. x \<noteq> CHR ''/'') es)
          else c # replace_params cs
      | _ \<Rightarrow> c # replace_params cs)"
  by pat_completeness auto
termination
  by (relation "measure length")
     (auto simp: le_imp_less_Suc length_dropWhile_le less_Suc_eq_le le_SucI)

declare replace_params.simps [simp del]

text \<open>\<^verbatim>\<open>.replace(/\*/g, '.*')\<close>\<close>

definition replace_star :: "string \<Rightarrow> string" where
  "replace_star s = concat (map (\<lambda>c. if c = CHR ''*'' then ''.*'' else [c]) s)"

text \<open>The text given to \<^verbatim>\<open>new RegExp\<close>: \<^verbatim>\<open>`^${pattern}$`\<close>.\<close>

definition pattern_source :: "string \<Rightarrow> string" where
  "pattern_source path = ''^'' @ replace_star (replace_params path) @ ''$''"

definition pathToPattern :: "string \<Rightarrow> RegExp attempt" where
  "pathToPattern path = new_RegExp (pattern_source path)"

text \<open>
  \<^verbatim>\<open>route.path.match(/:[^/]+/g) || []\<close>: from the left, every \<^verbatim>\<open>:\<close> that is followed
  by at least one character other than \<^verbatim>\<open>/\<close>, together with all such characters that
  follow.
\<close>

function match_param_names :: "string \<Rightarrow> string list" where
  "match_param_names [] = []"
| "match_param_names (c # cs) =
     (case cs of
        e # es \<Rightarrow>
          if c = CHR '':'' \<and> e \<noteq> CHR ''/''
          then (c # e # takeWhile (\<lambda>x. x \<noteq> CHR ''/'') es)
               # match_param_names (dropWhile (\<lambda>x. x \<noteq> CHR ''/'') es)
          else match_param_names cs
      | [] \<Rightarrow> [])"
  by pat_completeness auto
termination
  by (relation "measure length")
     (auto simp: le_imp_less_Suc length_dropWhile_le less_Suc_eq_le le_SucI)

declare match_param_names.simps [simp del]

record RouteDefinition =
  route_method :: string
  route_path :: string
  pattern :: RegExp
  handlers :: "handler list"

record RouteMatch =
  route :: RouteDefinition
  match_params :: "string \<rightharpoonup> jsval"

text \<open>
  Class \<^verbatim>\<open>Halin\<close>.  The fields \<^verbatim>\<open>prefix\<close> and \<^verbatim>\<open>currentGroupMiddlewares\<close> belong to
  the group builder and are left out with it.
\<close>

record Halin =
  routes :: "RouteDefinition list"
  middlewares :: "handler list"
  errorHandlers :: "error_handler list"

definition new_Halin :: Halin where
  "new_Halin = \<lparr>routes = [], middlewares = [], errorHandlers = []\<rparr>"

text \<open>
  \<^verbatim>\<open>use\<close> sorts its arguments by \<^verbatim>\<open>handler.length\<close>: a function declared with four
  parameters is an error handler, any other function is middleware.
\<close>

datatype registered = Arity4 error_handler | ArityOther handler

definition use1 :: "registered \<Rightarrow> Halin \<Rightarrow> Halin" where
  "use1 h app =
     (case h of
        Arity4 eh \<Rightarrow> app\<lparr>errorHandlers := errorHandlers app @ [eh]\<rparr>
      | ArityOther mw \<Rightarrow> app\<lparr>middlewares := middlewares app @ [mw]\<rparr>)"

definition use :: "registered list \<Rightarrow> Halin \<Rightarrow> Halin" where
  "use hs app = fold use1 hs app"

text \<open>
  \<^verbatim>\<open>addRoute\<close>: the only thing that can fail is \<^verbatim>\<open>new RegExp\<close> inside
  \<^verbatim>\<open>pathToPattern\<close>, whose \<^verbatim>\<open>SyntaxError\<close> leaves \<^verbatim>\<open>addRoute\<close> and the registration
  call.
\<close>

definition addRoute :: "string \<Rightarrow> string \<Rightarrow> handler list \<Rightarrow> Halin \<Rightarrow> Halin attempt" where
  "addRoute method path hs app =
     (case pathToPattern path of
        Ok re \<Rightarrow>
          Ok (app\<lparr>routes := routes app @
                 [\<lparr>route_method = method, route_path = path, pattern = re, handlers = hs\<rparr>]\<rparr>)
      | SyntaxError \<Rightarrow> SyntaxError
      | Unsupported \<Rightarrow> Unsupported)"

definition on :: "string \<Rightarrow> string \<Rightarrow> handler list \<Rightarrow> Halin \<Rightarrow> Halin attempt" where
  "on method path hs app = addRoute (toUpperCase method) path hs app"

definition get :: "string \<Rightarrow> handler list \<Rightarrow> Halin \<Rightarrow> Halin attempt" where
  "get path hs app = on ''GET'' path hs app"

definition post :: "string \<Rightarrow> handler list \<Rightarrow> Halin \<Rightarrow> Halin attempt" where
  "post path hs app = on ''POST'' path hs app"

text \<open>\<^verbatim>\<open>match[i]\<close>, as a JavaScript value: \<^verbatim>\<open>undefined\<close> beyond the array.\<close>

definition at_index :: "string option list \<Rightarrow> nat \<Rightarrow> jsval" where
  "at_index m i =
     (if i < length m then (case m ! i of None \<Rightarrow> JUndefined | Some v \<Rightarrow> JStr v)
      else JUndefined)"

text \<open>\<^verbatim>\<open>paramNames.forEach((param, index) => { params[param.slice(1)] = match[index + 1] })\<close>\<close>

fun bind_params ::
  "string list \<Rightarrow> nat \<Rightarrow> string option list \<Rightarrow> (string \<rightharpoonup> jsval) \<Rightarrow> (string \<rightharpoonup> jsval)" where
  "bind_params [] index m ps = ps"
| "bind_params (param # rest) index m ps =
     bind_params rest (index + 1) m (ps(drop 1 param \<mapsto> at_index m (index + 1)))"

definition extractParams :: "RouteDefinition \<Rightarrow> string \<Rightarrow> (string \<rightharpoonup> jsval) option" where
  "extractParams r path =
     (case match path (pattern r) of
        None \<Rightarrow> None
      | Some m \<Rightarrow> Some (bind_params (match_param_names (route_path r)) 0 m Map.empty))"

fun findRoute_in :: "RouteDefinition list \<Rightarrow> string \<Rightarrow> string \<Rightarrow> RouteMatch option" where
  "findRoute_in [] method path = None"
| "findRoute_in (r # rs) method path =
     (if route_method r = method then
        (case extractParams r path of
           Some ps \<Rightarrow> Some \<lparr>route = r, match_params = ps\<rparr>
         | None \<Rightarrow> findRoute_in rs method path)
      else findRoute_in rs method path)"

definition findRoute :: "Halin \<Rightarrow> string \<Rightarrow> string \<Rightarrow> RouteMatch option" where
  "findRoute app method path = findRoute_in (routes app) method path"




subsection \<open>Templates by segment\<close>

text \<open>
  The characters that are syntax in a pattern of the host: \<^verbatim>\<open>^ $ . * + ? ( ) [ ] { } |\<close>
  and the backslash.
\<close>

definition meta :: "char \<Rightarrow> bool" where
  "meta c \<longleftrightarrow> c \<in> set ''^$.*+?()[]{}|'' \<or> c = CHR 0x5C"

text \<open>Whether \<^verbatim>\<open>/\/:([^/]+)/\<close> occurs in a template: \<^verbatim>\<open>/:\<close> followed by a character other than \<^verbatim>\<open>/\<close>.\<close>

fun has_capture :: "string \<Rightarrow> bool" where
  "has_capture (c # d # e # es) =
     ((c = CHR ''/'' \<and> d = CHR '':'' \<and> e \<noteq> CHR ''/'') \<or> has_capture (d # e # es))"
| "has_capture cs = False"











definition slash_or_end :: "string \<Rightarrow> bool" where
  "slash_or_end s \<longleftrightarrow> s = [] \<or> hd s = CHR ''/''"

section \<open>Dispatch engine\<close>

text \<open>
  The execution of a handler body against the \<^verbatim>\<open>next\<close> it was given.  The closure
  variable \<^verbatim>\<open>index\<close> of the chain is private to \<^verbatim>\<open>next\<close>; it is kept in a cursor that
  no handler sees.  The cursor also records, for the proofs, which handlers were invoked
  and, for an error handler, with which error: \<open>Ran i\<close> for position \<open>i\<close> of the chain,
  \<open>RanError i e\<close> for position \<open>i\<close> of the error handlers.
\<close>

datatype event = Ran nat | RanError nat exn

record cursor =
  index :: nat
  events :: "event list"

type_synonym settled = "exn option \<times> cursor \<times> world"

primrec exec :: "step \<Rightarrow> (cursor \<Rightarrow> world \<Rightarrow> settled) \<Rightarrow> cursor \<Rightarrow> settled" where
  "exec (Done w) nx c = (None, c, w)"
| "exec (Throw e w) nx c = (Some e, c, w)"
| "exec (CallNext w k) nx c = (case nx c w of (r, c', w') \<Rightarrow> exec (k r w') nx c')"

definition outcome :: "settled \<Rightarrow> exn option" where
  "outcome s = fst s"

definition cursor_of :: "settled \<Rightarrow> cursor" where
  "cursor_of s = fst (snd s)"

definition world_of :: "settled \<Rightarrow> world" where
  "world_of s = snd (snd s)"

text \<open>A \<^verbatim>\<open>catch\<close> clause that throws \<open>f e\<close> for the error \<open>e\<close> it caught.\<close>

definition rethrow :: "(exn \<Rightarrow> exn) \<Rightarrow> settled \<Rightarrow> settled" where
  "rethrow f s = (case s of (None, c, w) \<Rightarrow> (None, c, w) | (Some e, c, w) \<Rightarrow> (Some (f e), c, w))"

text \<open>
  The closures \<^verbatim>\<open>next\<close> and \<^verbatim>\<open>errorNext\<close> of \<^verbatim>\<open>listen\<close> and \<^verbatim>\<open>handle\<close> have one shape:
  \<^verbatim>\<open>
  async () => {
    try {
      if (index < handlers.length) { const h = handlers[index++]; await h(..., next); }
      else <at_end>
    } catch (e) { throw <wrap e> }
  }
  \<close>
  where \<open>at_end\<close> does nothing or throws, and the \<^verbatim>\<open>try\<close> is absent (\<open>wrap\<close> is the
  identity) in some of them.  Every call of the closure from inside a handler is one level
  deeper than the call that invoked the handler, and each level has advanced \<^verbatim>\<open>index\<close>
  by one; the first argument bounds the depth.  At depth \<open>length hs\<close> the index has
  reached the end of the chain (the lemma \<open>chain_next_fuel\<close> below).
\<close>

fun chain_next ::
  "nat \<Rightarrow> handler list \<Rightarrow> (nat \<Rightarrow> event) \<Rightarrow> exn option \<Rightarrow> (exn \<Rightarrow> exn) \<Rightarrow> cursor \<Rightarrow> world \<Rightarrow> settled"
  where
  "chain_next 0 hs ev at_end wrap c w = rethrow wrap (at_end, c, w)"
| "chain_next (Suc n) hs ev at_end wrap c w =
     rethrow wrap
       (if index c < length hs
        then exec ((hs ! index c) w) (chain_next n hs ev at_end wrap)
               (c\<lparr>index := index c + 1, events := events c @ [ev (index c)]\<rparr>)
        else (at_end, c, w))"

declare chain_next.simps [simp del]

text \<open>
  \<^verbatim>\<open>next\<close> of the first copy's \<^verbatim>\<open>listen\<close> (lines 332 to 337) and of the second copy's
  \<^verbatim>\<open>handle\<close> (lines 1166 to 1175, whose \<^verbatim>\<open>catch\<close> throws what it caught).
\<close>

definition next_handler :: "handler list \<Rightarrow> cursor \<Rightarrow> world \<Rightarrow> settled" where
  "next_handler hs = chain_next (length hs) hs Ran None (\<lambda>e. e)"

text \<open>
  \<^verbatim>\<open>next\<close> of the first copy's \<^verbatim>\<open>handle\<close> (lines 484 to 495): past the end of the chain
  it throws \<^verbatim>\<open>HalinError(404, 'Not Found')\<close> when no route matched.
\<close>

definition next_or_404 :: "bool \<Rightarrow> handler list \<Rightarrow> cursor \<Rightarrow> world \<Rightarrow> settled" where
  "next_or_404 matched hs =
     chain_next (length hs) hs Ran
       (if matched then None else Some (HalinError 404 ''Not Found'')) (\<lambda>e. e)"

text \<open>
  \<^verbatim>\<open>next\<close> of the second copy's \<^verbatim>\<open>listen\<close> (lines 985 to 995): its \<^verbatim>\<open>catch\<close> throws
  \<^verbatim>\<open>error instanceof HalinError ? error : new HalinError(500, `Middleware error: ${error.message}`)\<close>.
\<close>

definition middleware_error :: "exn \<Rightarrow> exn" where
  "middleware_error e =
     (if instanceof_HalinError e then e
      else HalinError 500 (''Middleware error: '' @ message_text e))"

definition next_wrapping :: "handler list \<Rightarrow> cursor \<Rightarrow> world \<Rightarrow> settled" where
  "next_wrapping hs = chain_next (length hs) hs Ran None middleware_error"

text \<open>
  \<^verbatim>\<open>errorNext\<close> of both copies of \<^verbatim>\<open>handle\<close> and of the first copy's \<^verbatim>\<open>listen\<close>: every
  error handler is called with the error that was caught, whatever an earlier error handler
  did; past the end the error is thrown again.
\<close>

definition errorNext :: "exn \<Rightarrow> error_handler list \<Rightarrow> cursor \<Rightarrow> world \<Rightarrow> settled" where
  "errorNext error ehs =
     chain_next (length ehs) (map (\<lambda>h. h error) ehs) (\<lambda>i. RanError i error) (Some error) (\<lambda>e. e)"

text \<open>
  \<^verbatim>\<open>errorNext\<close> of the second copy's \<^verbatim>\<open>listen\<close> (lines 1003 to 1015), whose \<^verbatim>\<open>catch\<close>
  throws a \<^verbatim>\<open>HalinError\<close> as it is and \<^verbatim>\<open>HalinError(500, `Error handler failed: ...`)\<close>
  for anything else.
\<close>

definition error_handler_failed :: "exn \<Rightarrow> exn" where
  "error_handler_failed e =
     (if instanceof_HalinError e then e
      else HalinError 500 (''Error handler failed: '' @ message_text e))"

definition errorNext_wrapping :: "exn \<Rightarrow> error_handler list \<Rightarrow> cursor \<Rightarrow> world \<Rightarrow> settled" where
  "errorNext_wrapping error ehs =
     chain_next (length ehs) (map (\<lambda>h. h error) ehs) (\<lambda>i. RanError i error) (Some error)
       error_handler_failed"

subsection \<open>Wire responses\<close>

record wire_response =
  status :: int
  wire_headers :: headers
  wire_body :: body

text \<open>\<^verbatim>\<open>new Response(res.body, { status: res.statusCode, headers: res.headers })\<close>\<close>

definition respond_res :: "world \<Rightarrow> wire_response" where
  "respond_res w =
     \<lparr>status = statusCode (res w), wire_headers = headers (res w), wire_body = body (res w)\<rparr>"

text \<open>The same, preceded by the test for an SSE writer in \<^verbatim>\<open>currentResponse\<close>.\<close>

definition respond :: "world \<Rightarrow> wire_response" where
  "respond w =
     (case currentResponse w of
        Some sse \<Rightarrow>
          \<lparr>status = sse_statusCode sse, wire_headers = sse_headers sse,
           wire_body = BStream (sse_body sse)\<rparr>
      | None \<Rightarrow> respond_res w)"

text \<open>
  \<^verbatim>\<open>new Response(JSON.stringify(value), { status, headers: { 'Content-Type': 'application/json' } })\<close>
\<close>

definition json_response :: "int \<Rightarrow> jsval \<Rightarrow> wire_response" where
  "json_response code v =
     \<lparr>status = code,
      wire_headers = headers_of [(''Content-Type'', ''application/json'')],
      wire_body = (case stringify v of None \<Rightarrow> BUndefined | Some s \<Rightarrow> BText s)\<rparr>"

text \<open>\<^verbatim>\<open>error.message || 'Internal Server Error'\<close>: the empty string is falsy.\<close>

definition message_or_default :: "exn \<Rightarrow> string" where
  "message_or_default e =
     (case message e of
        None \<Rightarrow> ''Internal Server Error''
      | Some m \<Rightarrow> if m = [] then ''Internal Server Error'' else m)"

text \<open>
  The outermost \<^verbatim>\<open>catch\<close> of each entry point (the top-level boundary).  First copy,
  \<^verbatim>\<open>listen\<close> (lines 371 to 385):
\<close>

definition boundary_listen_first :: "exn \<Rightarrow> wire_response" where
  "boundary_listen_first error =
     (case error of
        HalinError code m \<Rightarrow> json_response code (JObj [(''error'', JStr m)])
      | _ \<Rightarrow> json_response 500 (JObj [(''error'', JStr ''Internal Server Error'')]))"

text \<open>First copy, \<^verbatim>\<open>handle\<close> (lines 531 to 544):\<close>

definition boundary_handle_first :: "exn \<Rightarrow> wire_response" where
  "boundary_handle_first error =
     (case error of
        HalinError code m \<Rightarrow> json_response code (JObj [(''error'', JStr m)])
      | _ \<Rightarrow> json_response 500 (JObj [(''error'', JStr (message_or_default error))]))"

text \<open>
  Second copy, \<^verbatim>\<open>listen\<close> (lines 1037 to 1062); \<open>node_env\<close> is
  \<^verbatim>\<open>process.env.NODE_ENV\<close>.
\<close>

definition boundary_listen :: "string option \<Rightarrow> exn \<Rightarrow> wire_response" where
  "boundary_listen node_env err =
     (let error = to_Error err in
      case error of
        HalinError code m \<Rightarrow> json_response code (JObj [(''error'', JStr m)])
      | _ \<Rightarrow>
          json_response 500
            (JObj [(''error'', JStr ''Internal Server Error''),
                   (''message'',
                    if node_env = Some ''development'' then JStr (message_or_default error)
                    else JUndefined)]))"

text \<open>Second copy, \<^verbatim>\<open>handle\<close> (lines 1214 to 1234):\<close>

definition boundary_handle :: "exn \<Rightarrow> wire_response" where
  "boundary_handle err =
     (let error = to_Error err in
      case error of
        HalinError code m \<Rightarrow> json_response code (JObj [(''error'', JStr m)])
      | _ \<Rightarrow> json_response 500 (JObj [(''error'', JStr (message_or_default error))]))"

subsection \<open>Body parsing\<close>

text \<open>
  An object with the given string properties: a repeated key keeps its place and takes the
  later value.
\<close>

fun assign :: "string \<Rightarrow> jsval \<Rightarrow> (string \<times> jsval) list \<Rightarrow> (string \<times> jsval) list" where
  "assign k v [] = [(k, v)]"
| "assign k v (p # ps) = (if fst p = k then (k, v) # ps else p # assign k v ps)"

definition object_of_entries :: "(string \<times> string) list \<Rightarrow> jsval" where
  "object_of_entries kvs = JObj (fold (\<lambda>kv ps. assign (fst kv) (JStr (snd kv)) ps) kvs [])"

definition is_content_type :: "raw_request \<Rightarrow> string \<Rightarrow> bool" where
  "is_content_type rq t =
     (case headers_get (raw_headers rq) ''Content-Type'' of
        None \<Rightarrow> False
      | Some ct \<Rightarrow> str_includes ct t)"

text \<open>
  Both copies of \<^verbatim>\<open>handle\<close>: only a JSON body is read; \<open>Inr None\<close> leaves \<^verbatim>\<open>req.body\<close>
  as it is.
\<close>

definition parse_body_handle :: "raw_request \<Rightarrow> exn + jsval option" where
  "parse_body_handle rq =
     (case raw_body rq of
        None \<Rightarrow> Inr None
      | Some b \<Rightarrow>
          if is_content_type rq ''application/json'' then
            (case read_json b of
               Inl m \<Rightarrow> Inl (HalinError 400 ''Invalid JSON body'')
             | Inr v \<Rightarrow> Inr (Some v))
          else Inr None)"

text \<open>First copy, \<^verbatim>\<open>listen\<close> (lines 254 to 275); the result is the variable \<^verbatim>\<open>body\<close>.\<close>

definition parse_body_listen_first :: "raw_request \<Rightarrow> exn + jsval" where
  "parse_body_listen_first rq =
     (case raw_body rq of
        None \<Rightarrow> Inr JNull
      | Some b \<Rightarrow>
          if is_content_type rq ''application/json'' then
            (case read_json b of
               Inl m \<Rightarrow> Inl (HalinError 400 ''Invalid JSON body'')
             | Inr v \<Rightarrow> Inr v)
          else if is_content_type rq ''application/x-www-form-urlencoded'' then
            (case read_formData b of
               Inl m \<Rightarrow> Inl (HalinError 400 ''Invalid form data'')
             | Inr kvs \<Rightarrow> Inr (object_of_entries kvs))
          else Inr (JStr (read_text b)))"

text \<open>Second copy, \<^verbatim>\<open>listen\<close> (lines 903 to 926).\<close>

definition parse_body_listen :: "raw_request \<Rightarrow> exn + jsval" where
  "parse_body_listen rq =
     (case raw_body rq of
        None \<Rightarrow> Inr JNull
      | Some b \<Rightarrow>
          if is_content_type rq ''application/json'' then
            (case read_json b of
               Inl m \<Rightarrow> Inl (HalinError 400 (''Invalid request body: '' @ m))
             | Inr v \<Rightarrow> Inr v)
          else if is_content_type rq ''application/x-www-form-urlencoded'' then
            (case read_formData b of
               Inl m \<Rightarrow> Inl (HalinError 400 (''Invalid request body: '' @ m))
             | Inr kvs \<Rightarrow> Inr (object_of_entries kvs))
          else Inr (JStr (read_text b)))"

subsection \<open>The entry points\<close>

definition new_request :: "raw_request \<Rightarrow> request" where
  "new_request rq =
     \<lparr>req_method = raw_method rq, req_url = raw_url rq, req_path = pathname rq,
      params = Map.empty, query = fromEntries (searchParams rq),
      req_headers = raw_headers rq, req_body = JNull\<rparr>"

definition new_world :: "raw_request \<Rightarrow> world" where
  "new_world rq = \<lparr>req = new_request rq, res = new_response, currentResponse = None\<rparr>"

definition start :: cursor where
  "start = \<lparr>index = 0, events = []\<rparr>"

text \<open>An entry point's result: the wire response, and the record of the invocations.\<close>

record served =
  response :: wire_response
  trace :: "event list"

text \<open>The effective chain of a match: \<^verbatim>\<open>[...this.middlewares, ...match.route.handlers]\<close>.\<close>

definition chain_of :: "Halin \<Rightarrow> RouteMatch \<Rightarrow> handler list" where
  "chain_of app m = middlewares app @ handlers (route m)"

text \<open>
  \<^verbatim>\<open>handle\<close>, second copy (lines 1078 to 1235).  \<open>handle_try\<close> is the inner \<^verbatim>\<open>try\<close> block
  up to \<^verbatim>\<open>await next()\<close>; \<open>handle_catch\<close> is what follows it: the construction of the
  response and the two \<^verbatim>\<open>catch\<close> clauses.
\<close>

definition handle_try :: "Halin \<Rightarrow> raw_request \<Rightarrow> settled" where
  "handle_try app rq =
     (let w = new_world rq in
      case findRoute app (raw_method rq) (pathname rq) of
        None \<Rightarrow> (Some (HalinError 404 ''Not Found''), start, w)
      | Some m \<Rightarrow>
          (let w1 = w\<lparr>req := (req w)\<lparr>params := match_params m\<rparr>\<rparr> in
           case parse_body_handle rq of
             Inl e \<Rightarrow> (Some e, start, w1)
           | Inr None \<Rightarrow> next_handler (chain_of app m) start w1
           | Inr (Some v) \<Rightarrow>
               next_handler (chain_of app m) start (w1\<lparr>req := (req w1)\<lparr>req_body := v\<rparr>\<rparr>)))"

definition handle_catch :: "error_handler list \<Rightarrow> settled \<Rightarrow> served" where
  "handle_catch ehs s =
     (case s of
        (None, c, w) \<Rightarrow> \<lparr>response = respond w, trace = events c\<rparr>
      | (Some err, c, w) \<Rightarrow>
          (let error = to_Error err in
           if length ehs > 0 then
             (case errorNext error ehs (c\<lparr>index := 0\<rparr>) w of
                (None, c', w') \<Rightarrow> \<lparr>response = respond_res w', trace = events c'\<rparr>
              | (Some e, c', w') \<Rightarrow> \<lparr>response = boundary_handle e, trace = events c'\<rparr>)
           else \<lparr>response = boundary_handle error, trace = events c\<rparr>))"

definition handle_served :: "Halin \<Rightarrow> raw_request \<Rightarrow> served" where
  "handle_served app rq = handle_catch (errorHandlers app) (handle_try app rq)"

definition handle :: "Halin \<Rightarrow> raw_request \<Rightarrow> wire_response" where
  "handle app rq = response (handle_served app rq)"

text \<open>
  \<^verbatim>\<open>handle\<close>, first copy (lines 396 to 545): the global middleware runs also when no
  route matched, and the 404 is thrown by \<^verbatim>\<open>next\<close> past the end of the chain.
\<close>

definition handle_first_try :: "Halin \<Rightarrow> raw_request \<Rightarrow> settled" where
  "handle_first_try app rq =
     (let w = new_world rq;
          found = findRoute app (raw_method rq) (pathname rq);
          w1 = (case found of
                  None \<Rightarrow> w
                | Some m \<Rightarrow> w\<lparr>req := (req w)\<lparr>params := match_params m\<rparr>\<rparr>);
          hs = (case found of None \<Rightarrow> middlewares app | Some m \<Rightarrow> chain_of app m)
      in
      case parse_body_handle rq of
        Inl e \<Rightarrow> (Some e, start, w1)
      | Inr None \<Rightarrow> next_or_404 (found \<noteq> None) hs start w1
      | Inr (Some v) \<Rightarrow>
          next_or_404 (found \<noteq> None) hs start (w1\<lparr>req := (req w1)\<lparr>req_body := v\<rparr>\<rparr>))"

definition handle_first_catch :: "error_handler list \<Rightarrow> settled \<Rightarrow> served" where
  "handle_first_catch ehs s =
     (case s of
        (None, c, w) \<Rightarrow> \<lparr>response = respond w, trace = events c\<rparr>
      | (Some error, c, w) \<Rightarrow>
          if length ehs > 0 then
            (case errorNext error ehs (c\<lparr>index := 0\<rparr>) w of
               (None, c', w') \<Rightarrow> \<lparr>response = respond_res w', trace = events c'\<rparr>
             | (Some e, c', w') \<Rightarrow> \<lparr>response = boundary_handle_first e, trace = events c'\<rparr>)
          else \<lparr>response = boundary_handle_first error, trace = events c\<rparr>)"

definition handle_first_served :: "Halin \<Rightarrow> raw_request \<Rightarrow> served" where
  "handle_first_served app rq = handle_first_catch (errorHandlers app) (handle_first_try app rq)"

definition handle_first :: "Halin \<Rightarrow> raw_request \<Rightarrow> wire_response" where
  "handle_first app rq = response (handle_first_served app rq)"

text \<open>
  The \<^verbatim>\<open>fetch\<close> function that \<^verbatim>\<open>listen\<close> gives to the host, second copy (lines 889 to
  1063).  The route is looked up and the body is read before the inner \<^verbatim>\<open>try\<close>; the
  error handlers are reached from that inner \<^verbatim>\<open>try\<close> only.  \<open>listen_catch\<close> is what
  follows \<^verbatim>\<open>await next()\<close>: the \<^verbatim>\<open>catch\<close> of the inner \<^verbatim>\<open>try\<close>, the construction of
  the response, and the outermost \<^verbatim>\<open>catch\<close>.  \<open>listen_world\<close> is the pair of \<^verbatim>\<open>req\<close>
  and \<^verbatim>\<open>res\<close> the chain starts with.
\<close>

definition listen_catch :: "string option \<Rightarrow> error_handler list \<Rightarrow> settled \<Rightarrow> served" where
  "listen_catch node_env ehs s =
     (case s of
        (None, c, w) \<Rightarrow> \<lparr>response = respond w, trace = events c\<rparr>
      | (Some error, c, w) \<Rightarrow>
          if length ehs > 0 then
            (case errorNext_wrapping error ehs (c\<lparr>index := 0\<rparr>) w of
               (None, c', w') \<Rightarrow> \<lparr>response = respond w', trace = events c'\<rparr>
             | (Some e, c', w') \<Rightarrow> \<lparr>response = boundary_listen node_env e, trace = events c'\<rparr>)
          else \<lparr>response = boundary_listen node_env error, trace = events c\<rparr>)"

definition listen_world :: "raw_request \<Rightarrow> RouteMatch \<Rightarrow> jsval \<Rightarrow> world" where
  "listen_world rq m b =
     \<lparr>req = (new_request rq)\<lparr>params := match_params m, req_body := b\<rparr>,
      res = new_response, currentResponse = None\<rparr>"

definition listen_served :: "Halin \<Rightarrow> string option \<Rightarrow> raw_request \<Rightarrow> served" where
  "listen_served app node_env rq =
     (case findRoute app (raw_method rq) (pathname rq) of
        None \<Rightarrow>
          \<lparr>response = boundary_listen node_env (HalinError 404 ''Not Found''), trace = []\<rparr>
      | Some m \<Rightarrow>
          (case parse_body_listen rq of
             Inl e \<Rightarrow> \<lparr>response = boundary_listen node_env e, trace = []\<rparr>
           | Inr b \<Rightarrow>
               listen_catch node_env (errorHandlers app)
                 (next_wrapping (chain_of app m) start (listen_world rq m b))))"

definition listen :: "Halin \<Rightarrow> string option \<Rightarrow> raw_request \<Rightarrow> wire_response" where
  "listen app node_env rq = response (listen_served app node_env rq)"

text \<open>
  The \<^verbatim>\<open>fetch\<close> function of the first copy's \<^verbatim>\<open>listen\<close> (lines 241 to 386).  That
  function has no declaration of \<^verbatim>\<open>currentResponse\<close>: the test
  \<^verbatim>\<open>currentResponse instanceof SSEWriter\<close> after the chain throws a \<^verbatim>\<open>ReferenceError\<close>,
  which the outermost \<^verbatim>\<open>catch\<close> receives.  (For the same reason \<^verbatim>\<open>res.sse()\<close> throws
  there; a handler that calls it is a handler that throws.)
\<close>

definition ReferenceError :: exn where
  "ReferenceError = Error ''currentResponse is not defined''"

definition listen_first_catch :: "error_handler list \<Rightarrow> settled \<Rightarrow> served" where
  "listen_first_catch ehs s =
     (case s of
        (None, c, w) \<Rightarrow> \<lparr>response = boundary_listen_first ReferenceError, trace = events c\<rparr>
      | (Some error, c, w) \<Rightarrow>
          if length ehs > 0 then
            (case errorNext error ehs (c\<lparr>index := 0\<rparr>) w of
               (None, c', w') \<Rightarrow>
                 \<lparr>response = boundary_listen_first ReferenceError, trace = events c'\<rparr>
             | (Some e, c', w') \<Rightarrow> \<lparr>response = boundary_listen_first e, trace = events c'\<rparr>)
          else \<lparr>response = boundary_listen_first error, trace = events c\<rparr>)"

definition listen_first_served :: "Halin \<Rightarrow> raw_request \<Rightarrow> served" where
  "listen_first_served app rq =
     (case findRoute app (raw_method rq) (pathname rq) of
        None \<Rightarrow> \<lparr>response = boundary_listen_first (HalinError 404 ''Not Found''), trace = []\<rparr>
      | Some m \<Rightarrow>
          (case parse_body_listen_first rq of
             Inl e \<Rightarrow> \<lparr>response = boundary_listen_first e, trace = []\<rparr>
           | Inr b \<Rightarrow>
               listen_first_catch (errorHandlers app)
                 (next_handler (chain_of app m) start (listen_world rq m b))))"

definition listen_first :: "Halin \<Rightarrow> raw_request \<Rightarrow> wire_response" where
  "listen_first app rq = response (listen_first_served app rq)"

section \<open>Kinds of handlers\<close>






section \<open>Example handlers and requests\<close>

text \<open>
  Handlers as applications write them, for the concrete cases below.
  \<^verbatim>\<open>async (req, res, next) => { await next() }\<close>:
\<close>

definition proceed :: handler where
  "proceed w = CallNext w (\<lambda>r w'. case r of None \<Rightarrow> Done w' | Some e \<Rightarrow> Throw e w')"

text \<open>\<^verbatim>\<open>async (req, res, next) => { res.header(name, v); await next() }\<close>\<close>

definition set_header_then_proceed :: "string \<Rightarrow> string \<Rightarrow> handler" where
  "set_header_then_proceed name v w =
     CallNext (w\<lparr>res := res_header name v (res w)\<rparr>)
       (\<lambda>r w'. case r of None \<Rightarrow> Done w' | Some e \<Rightarrow> Throw e w')"

text \<open>\<^verbatim>\<open>async (req, res, next) => { await next(); await next() }\<close>\<close>

definition proceed_twice :: handler where
  "proceed_twice w =
     CallNext w
       (\<lambda>r w'. case r of
                 Some e \<Rightarrow> Throw e w'
               | None \<Rightarrow>
                   CallNext w' (\<lambda>r' w''. case r' of None \<Rightarrow> Done w'' | Some e \<Rightarrow> Throw e w''))"

text \<open>\<^verbatim>\<open>(req, res) => { }\<close>\<close>

definition do_nothing :: handler where
  "do_nothing w = Done w"

text \<open>\<^verbatim>\<open>(req, res) => { res.json(v) }\<close> and \<^verbatim>\<open>(req, res) => { res.text(s) }\<close>\<close>

definition reply_json :: "jsval \<Rightarrow> handler" where
  "reply_json v w = Done (w\<lparr>res := res_json v (res w)\<rparr>)"

definition reply_text :: "string \<Rightarrow> handler" where
  "reply_text s w = Done (w\<lparr>res := res_text s (res w)\<rparr>)"

text \<open>\<^verbatim>\<open>(req, res) => { throw e }\<close>\<close>

definition throw :: "exn \<Rightarrow> handler" where
  "throw e w = Throw e w"

text \<open>
  The error handler of the tests:
  \<^verbatim>\<open>(error, req, res, next) => { res.status(500).json({ error: error.message }) }\<close>
\<close>

definition report_error :: error_handler where
  "report_error error w =
     Done (w\<lparr>res := res_json (JObj [(''error'',
                                      case message error of None \<Rightarrow> JUndefined | Some m \<Rightarrow> JStr m)])
                     (res_status 500 (res w))\<rparr>)"

text \<open>\<^verbatim>\<open>new Request('http://localhost' + path)\<close>: a GET request without headers or body.\<close>

definition get_request :: "string \<Rightarrow> raw_request" where
  "get_request p =
     \<lparr>raw_method = ''GET'', raw_url = ''http://localhost'' @ p, pathname = p,
      searchParams = [], raw_headers = Map.empty, raw_body = None\<rparr>"

section \<open>Properties of the response builder\<close>

text \<open>
  C10.  \<^verbatim>\<open>send(null)\<close> goes through the \<^verbatim>\<open>json\<close> branch, because \<^verbatim>\<open>typeof null\<close> is
  \<^verbatim>\<open>'object'\<close>: on every response object the body becomes the four characters
  \<^verbatim>\<open>null\<close>, the Content-Type header becomes \<^verbatim>\<open>application/json\<close>, and the result
  differs from what the \<^verbatim>\<open>text\<close> branch would have produced from \<^verbatim>\<open>String(null)\<close>.
\<close>

theorem send_null_is_json:
  "res_send JNull rsp = res_json JNull rsp
   \<and> body (res_send JNull rsp) = BText ''null''
   \<and> headers_get (headers (res_send JNull rsp)) ''Content-Type'' = Some ''application/json''
   \<and> statusCode (res_send JNull rsp) = statusCode rsp
   \<and> res_send JNull rsp \<noteq> res_text (String_of JNull) rsp"
proof -
  have branch: "res_send JNull rsp = res_json JNull rsp"
    by (simp add: res_send_def)
  have b: "body (res_json JNull rsp) = BText ''null''"
    by (simp add: res_json_def)
  have h: "headers_get (headers (res_json JNull rsp)) ''Content-Type'' = Some ''application/json''"
    by (simp add: res_json_def res_header_def headers_get_def headers_set_def)
  have s: "statusCode (res_json JNull rsp) = statusCode rsp"
    by (simp add: res_json_def res_header_def)
  have "headers_get (headers (res_text (String_of JNull) rsp)) ''Content-Type'' = Some ''text/plain''"
    by (simp add: res_text_def res_header_def headers_get_def headers_set_def)
  with h have d: "res_json JNull rsp \<noteq> res_text (String_of JNull) rsp"
    by auto
  from branch b h s d show ?thesis
    by simp
qed


section \<open>Properties of the SSE writer\<close>









text \<open>
  The case the claim names: a channel that is closed twice after some events were sent
  has been finalized exactly once, and a later \<^verbatim>\<open>send\<close> adds nothing to the three chunks.
\<close>

lemma sse_close_twice_example:
  "sse_run [Send (JStr ''a''), Send (JNum 1), Send JNull, Close, Close, Send (JStr ''late'')]
     (False, new_SSEWriter) =
   (False,
    new_SSEWriter
      \<lparr>controller :=
         \<lparr>chunks = [''data: a'' @ [CHR 0x0A, CHR 0x0A], ''data: 1'' @ [CHR 0x0A, CHR 0x0A],
                    ''data: null'' @ [CHR 0x0A, CHR 0x0A]],
          stream_closed = True, finalized = 1\<rparr>,
       closed := True\<rparr>)"
  by (simp add: SSEWriter_send_def SSEWriter_close_def controller_enqueue_def
      controller_close_def new_SSEWriter_def new_stream_def sse_message_def show_int_def
      show_nat.simps)


section \<open>Properties of the route table\<close>

lemmas rx_eval = pathToPattern_def pattern_source_def new_RegExp_def replace_star_def parse_char_def outside_char_def
  add_item_def quantify_def cls_char_def close_frame_def mk_seq_def match_def reset_def
  quantifier_def star.simps replace_params.simps match_param_names.simps








section \<open>Properties of the pattern compiler\<close>

subsection \<open>The pattern text of a template\<close>













lemma replace_star_no_star: "CHR ''*'' \<notin> set s \<Longrightarrow> replace_star s = s"
  by (induction s) (auto simp: replace_star_def)




lemma replace_params_no_capture: "\<not> has_capture t \<Longrightarrow> replace_params t = t"
proof (induction t rule: has_capture.induct)
  case (1 c d e es)
  then have "replace_params (d # e # es) = d # e # es"
    by simp
  moreover from "1.prems" have "replace_params (c # d # e # es) = c # replace_params (d # e # es)"
    by (subst replace_params.simps) auto
  ultimately show ?case
    by simp
qed (simp_all add: replace_params.simps)









subsection \<open>The pattern a template compiles to\<close>

lemma not_meta_parse_char:
  "\<not> meta c \<Longrightarrow>
     parse_char c ((g, alts, items) # fs, ng, Outside) =
       Ok ((g, alts, (RChar c, Atom) # items) # fs, ng, Outside)"
  by (simp add: parse_char_def outside_char_def add_item_def meta_def)

lemma parse_plain:
  "\<forall>c\<in>set l. \<not> meta c \<Longrightarrow>
     parse_chars (l @ tail) ((g, alts, items) # fs, ng, Outside) =
       parse_chars tail ((g, alts, rev (map (\<lambda>c. (RChar c, Atom)) l) @ items) # fs, ng, Outside)"
  by (induction l arbitrary: items) (simp_all add: not_meta_parse_char)





subsection \<open>Matching a path against a compiled template\<close>

lemma mk_seq_Cons:
  "matcher_of (mk_seq (x # xs)) n st k = matcher_of x n st (\<lambda>y. matcher_of (mk_seq xs) n y k)"
  by (simp add: mk_seq_def)

lemma match_chars:
  "matcher_of (mk_seq (map RChar s @ ys)) n (inp, caps) k =
     (if take (length s) inp = s then matcher_of (mk_seq ys) n (drop (length s) inp, caps) k
      else None)"
proof (induction s arbitrary: inp)
  case Nil
  show ?case by simp
next
  case (Cons c s)
  show ?case
  proof (cases inp)
    case Nil
    then show ?thesis
      by (simp add: mk_seq_Cons)
  next
    case (Cons d ds)
    with Cons.IH [of ds] show ?thesis
      by (simp add: mk_seq_Cons)
  qed
qed

lemma class_fails_at_slash_or_end:
  "slash_or_end rest \<Longrightarrow> matcher_of (RClass True ''/'') n (rest, caps) k = None"
  by (cases rest) (auto simp: slash_or_end_def)








subsection \<open>Templates without pattern syntax\<close>

lemma pathToPattern_plain:
  assumes "\<forall>c\<in>set t. \<not> meta c" and "\<not> has_capture t"
  shows "pathToPattern t = Ok \<lparr>ast = mk_seq (RBol # map RChar t @ [REol]), ngroups = 0\<rparr>"
proof -
  from assms(1) have "CHR ''*'' \<notin> set t"
    by (auto simp: meta_def)
  with assms(2) have src: "pattern_source t = ''^'' @ t @ ''$''"
    by (simp add: pattern_source_def replace_params_no_capture replace_star_no_star)
  have "parse_chars (''^'' @ t @ ''$'') ([(0, [], [])], 0, Outside) =
        parse_chars (t @ ''$'') ([(0, [], [(RBol, Assertion)])], 0, Outside)"
    by (simp add: parse_char_def outside_char_def add_item_def)
  also have "\<dots> = parse_chars ''$''
      ([(0, [], rev (map (\<lambda>c. (RChar c, Atom)) t) @ [(RBol, Assertion)])], 0, Outside)"
    using assms(1) by (rule parse_plain)
  also have "\<dots> = Ok
      ([(0, [], (REol, Assertion) # rev (map (\<lambda>c. (RChar c, Atom)) t) @ [(RBol, Assertion)])],
       0, Outside)"
    by (simp add: parse_char_def outside_char_def add_item_def)
  finally show ?thesis
    by (simp add: pathToPattern_def src new_RegExp_def close_frame_def rev_map comp_def)
qed

lemma scan_past_start:
  "length s < n \<Longrightarrow> scan (mk_seq (RBol # xs)) ng n s = None"
  by (induction s) (simp_all add: mk_seq_Cons)

lemma take_drop_whole: "take (length t) p = t \<and> drop (length t) p = [] \<longleftrightarrow> p = t"
  by (metis append_Nil2 append_take_drop_id drop_all order_refl take_all)

lemma match_plain:
  "match p \<lparr>ast = mk_seq (RBol # map RChar t @ [REol]), ngroups = 0\<rparr> =
     (if p = t then Some [Some t] else None)"
proof -
  let ?ast = "mk_seq (RBol # map RChar t @ [REol])"
  have "matcher_of ?ast (length p) (p, []) Some =
        (if take (length t) p = t \<and> drop (length t) p = [] then Some ([], []) else None)"
    by (simp add: mk_seq_Cons match_chars) (simp add: mk_seq_def)
  then have m: "matcher_of ?ast (length p) (p, []) Some = (if p = t then Some ([], []) else None)"
    by (simp only: take_drop_whole)
  show ?thesis
  proof (cases p)
    case Nil
    with m show ?thesis
      by (simp add: match_def)
  next
    case (Cons c cs)
    have "scan ?ast 0 (length p) cs = None"
      by (rule scan_past_start) (simp add: Cons)
    with m Cons show ?thesis
      by (simp add: match_def)
  qed
qed

text \<open>
  C4, as the code has it.  \<^verbatim>\<open>pathToPattern\<close> escapes nothing: a template without a
  \<^verbatim>\<open>/:name\<close> capture and without \<^verbatim>\<open>*\<close> is handed to \<^verbatim>\<open>new RegExp\<close> as it stands, between
  \<^verbatim>\<open>^\<close> and \<^verbatim>\<open>$\<close>.  Literal matching therefore holds for the templates that contain
  no pattern syntax: such a template compiles, and the only path it matches is the
  template itself.
\<close>

theorem pattern_compilation_escapes_nothing:
  "(\<not> has_capture t \<and> CHR ''*'' \<notin> set t \<longrightarrow> pattern_source t = ''^'' @ t @ ''$'')
   \<and> ((\<forall>c\<in>set t. \<not> meta c) \<and> \<not> has_capture t \<longrightarrow>
        (\<exists>re. pathToPattern t = Ok re
           \<and> (\<forall>p. match p re = (if p = t then Some [Some t] else None))))"
  by (simp add: pattern_source_def replace_params_no_capture replace_star_no_star
      pathToPattern_plain match_plain)

theorem pattern_compilation_escapes_nothing_witness:
  "pattern_source ''/a.b'' = ''^/a.b$''
   \<and> (\<exists>re. pathToPattern ''/a-b'' = Ok re
         \<and> match ''/a-b'' re = Some [Some ''/a-b'']
         \<and> match ''/axb'' re = None
         \<and> match ''/a-b/'' re = None)"
proof -
  have "pattern_source ''/a.b'' = ''^/a.b$''"
    using pattern_compilation_escapes_nothing [of "''/a.b''"] by simp
  moreover have "\<exists>re. pathToPattern ''/a-b'' = Ok re
         \<and> (\<forall>p. match p re = (if p = ''/a-b'' then Some [Some ''/a-b''] else None))"
    using pattern_compilation_escapes_nothing [of "''/a-b''"] by (simp add: meta_def)
  ultimately show ?thesis
    by auto
qed

text \<open>
  C4 as stated fails: the characters of a literal segment that are pattern syntax are
  interpreted.  The template \<^verbatim>\<open>/a.b\<close> matches the path \<^verbatim>\<open>/axb\<close>; the template \<^verbatim>\<open>/v(1)\<close>
  does not match the path \<^verbatim>\<open>/v(1)\<close> and matches \<^verbatim>\<open>/v1\<close> with a capture group; the
  template \<^verbatim>\<open>/a+(\<close> is refused by \<^verbatim>\<open>new RegExp\<close>.
\<close>

theorem metacharacters_are_pattern_syntax:
  "(case pathToPattern ''/a.b'' of
      Ok re \<Rightarrow> match ''/axb'' re = Some [Some ''/axb'']
    | _ \<Rightarrow> False)
   \<and> (case pathToPattern ''/v(1)'' of
        Ok re \<Rightarrow> match ''/v(1)'' re = None \<and> match ''/v1'' re = Some [Some ''/v1'', Some ''1'']
      | _ \<Rightarrow> False)
   \<and> pathToPattern ''/a+('' = SyntaxError"
  by (simp add: rx_eval)

subsection \<open>Templates with parameters\<close>






section \<open>Properties of the handler chain\<close>

lemma rethrow_parts [simp]:
  "cursor_of (rethrow f s) = cursor_of s"
  "world_of (rethrow f s) = world_of s"
  "outcome (rethrow f s) = map_option f (outcome s)"
  by (cases s; cases "fst s"; simp add: rethrow_def cursor_of_def world_of_def outcome_def)+

lemma settled_parts [simp]:
  "cursor_of (r, c, w) = c" "world_of (r, c, w) = w" "outcome (r, c, w) = r"
  by (simp_all add: cursor_of_def world_of_def outcome_def)

lemma settled_eq: "s = (outcome s, cursor_of s, world_of s)"
  by (simp add: cursor_of_def world_of_def outcome_def)



lemma exec_mono:
  assumes "\<And>c w. index c \<le> index (cursor_of (nx c w))"
  shows "index c \<le> index (cursor_of (exec t nx c))"
proof (induction t arbitrary: c)
  case (CallNext w k)
  obtain r c' w' where s: "nx c w = (r, c', w')"
    by (cases "nx c w")
  with assms [of c w] have "index c \<le> index c'"
    by simp
  also have "\<dots> \<le> index (cursor_of (exec (k r w') nx c'))"
    by (rule CallNext.IH [OF rangeI rangeI])
  finally show ?case
    using s by simp
qed simp_all

lemma exec_cong:
  assumes "\<And>c w. J c \<Longrightarrow> nx1 c w = nx2 c w"
    and "\<And>c w. J c \<Longrightarrow> J (cursor_of (nx1 c w))"
    and "J c"
  shows "exec t nx1 c = exec t nx2 c"
  using assms(3)
proof (induction t arbitrary: c)
  case (CallNext w k)
  obtain r c' w' where s: "nx1 c w = (r, c', w')"
    by (cases "nx1 c w")
  with assms(1) [OF CallNext.prems, of w] have s2: "nx2 c w = (r, c', w')"
    by simp
  from assms(2) [OF CallNext.prems, of w] s have "J c'"
    by simp
  then have "exec (k r w') nx1 c' = exec (k r w') nx2 c'"
    by (rule CallNext.IH [OF rangeI rangeI])
  with s s2 show ?case
    by simp
qed simp_all


lemma chain_next_mono:
  "index c \<le> index (cursor_of (chain_next n hs ev at_end wrap c w))"
proof (induction n arbitrary: c w)
  case 0
  show ?case by (simp add: chain_next.simps)
next
  case (Suc n)
  show ?case
  proof (cases "index c < length hs")
    case True
    let ?c1 = "c\<lparr>index := index c + 1, events := events c @ [ev (index c)]\<rparr>"
    have "index ?c1 \<le> index (cursor_of (exec ((hs ! index c) w) (chain_next n hs ev at_end wrap) ?c1))"
      by (rule exec_mono) (rule Suc.IH)
    with True show ?thesis by (simp add: chain_next.simps)
  next
    case False
    then show ?thesis by (simp add: chain_next.simps)
  qed
qed

lemma chain_next_fuel:
  "length hs \<le> index c + n \<Longrightarrow>
     chain_next (Suc n) hs ev at_end wrap c w = chain_next n hs ev at_end wrap c w"
proof (induction n arbitrary: c w)
  case 0
  then show ?case by (simp add: chain_next.simps)
next
  case (Suc n)
  show ?case
  proof (cases "index c < length hs")
    case True
    let ?c1 = "c\<lparr>index := index c + 1, events := events c @ [ev (index c)]\<rparr>"
    have "exec ((hs ! index c) w) (chain_next (Suc n) hs ev at_end wrap) ?c1 =
          exec ((hs ! index c) w) (chain_next n hs ev at_end wrap) ?c1"
    proof (rule exec_cong [where J = "\<lambda>c'. index ?c1 \<le> index c'"])
      fix c' :: cursor and w' :: world
      assume "index ?c1 \<le> index c'"
      with Suc.prems show "chain_next (Suc n) hs ev at_end wrap c' w' = chain_next n hs ev at_end wrap c' w'"
        by (intro Suc.IH) simp
      from \<open>index ?c1 \<le> index c'\<close> chain_next_mono [of c' "Suc n" hs ev at_end wrap w']
      show "index ?c1 \<le> index (cursor_of (chain_next (Suc n) hs ev at_end wrap c' w'))"
        by simp
    qed simp
    with True show ?thesis by (simp add: chain_next.simps)
  next
    case False
    then show ?thesis by (simp add: chain_next.simps)
  qed
qed



lemma exec_events:
  assumes "\<And>c w. \<exists>js. events (cursor_of (nx c w)) = events c @ map ev js \<and> (\<forall>j\<in>set js. j < b)"
  shows "\<exists>js. events (cursor_of (exec t nx c)) = events c @ map ev js \<and> (\<forall>j\<in>set js. j < b)"
proof (induction t arbitrary: c)
  case (Done w)
  show ?case
    by (rule exI [of _ "[]"]) simp
next
  case (Throw e w)
  show ?case
    by (rule exI [of _ "[]"]) simp
next
  case (CallNext w k)
  obtain r c' w' where s: "nx c w = (r, c', w')"
    by (cases "nx c w")
  with assms [of c w] obtain js where js: "events c' = events c @ map ev js" "\<forall>j\<in>set js. j < b"
    by auto
  from CallNext.IH [OF rangeI rangeI, of r w' c'] obtain js'
    where js': "events (cursor_of (exec (k r w') nx c')) = events c' @ map ev js'" "\<forall>j\<in>set js'. j < b"
    by auto
  have "exec (CallNext w k) nx c = exec (k r w') nx c'"
    using s by simp
  with js js' show ?case
    by (intro exI [of _ "js @ js'"]) auto
qed

lemma chain_next_events:
  "\<exists>js. events (cursor_of (chain_next n hs ev at_end wrap c w)) = events c @ map ev js
        \<and> (\<forall>j\<in>set js. j < length hs)"
proof (induction n arbitrary: c w)
  case 0
  show ?case
    by (rule exI [of _ "[]"]) (simp add: chain_next.simps)
next
  case (Suc n)
  show ?case
  proof (cases "index c < length hs")
    case False
    then show ?thesis
      by (intro exI [of _ "[]"]) (simp add: chain_next.simps)
  next
    case True
    let ?c1 = "c\<lparr>index := index c + 1, events := events c @ [ev (index c)]\<rparr>"
    from exec_events [of "chain_next n hs ev at_end wrap" ev "length hs" "(hs ! index c) w" ?c1, OF Suc.IH]
    obtain js where "events (cursor_of (exec ((hs ! index c) w) (chain_next n hs ev at_end wrap) ?c1)) =
        events ?c1 @ map ev js" "\<forall>j\<in>set js. j < length hs"
      by blast
    with True have "events (cursor_of (chain_next (Suc n) hs ev at_end wrap c w)) =
        events c @ map ev (index c # js) \<and> (\<forall>j\<in>set (index c # js). j < length hs)"
      by (simp add: chain_next.simps)
    then show ?thesis
      by blast
  qed
qed

lemma chain_next_first_event:
  assumes "index c < length hs"
  shows "\<exists>js. events (cursor_of (chain_next (Suc n) hs ev at_end wrap c w)) =
           events c @ ev (index c) # map ev js"
proof -
  let ?c1 = "c\<lparr>index := index c + 1, events := events c @ [ev (index c)]\<rparr>"
  from exec_events [of "chain_next n hs ev at_end wrap" ev "length hs" "(hs ! index c) w" ?c1,
      OF chain_next_events]
  obtain js where "events (cursor_of (exec ((hs ! index c) w) (chain_next n hs ev at_end wrap) ?c1)) =
      events ?c1 @ map ev js"
    by blast
  with assms show ?thesis
    by (auto simp add: chain_next.simps)
qed





















lemmas reg_eval = get_def on_def toUpperCase_def toUpperCase_char_def addRoute_def use_def
  use1_def new_Halin_def rx_eval findRoute_def extractParams_def at_index_def

lemmas chain_eval = chain_next.simps next_handler_def next_or_404_def next_wrapping_def
  errorNext_def errorNext_wrapping_def rethrow_def start_def chain_of_def
  middleware_error_def error_handler_failed_def message_text_def

lemmas entry_eval = handle_def handle_served_def handle_catch_def handle_try_def
  handle_first_def handle_first_served_def handle_first_catch_def handle_first_try_def
  listen_def listen_served_def listen_catch_def listen_world_def
  listen_first_def listen_first_served_def listen_first_catch_def
  parse_body_handle_def parse_body_listen_def
  parse_body_listen_first_def new_world_def new_request_def get_request_def
  respond_def respond_res_def json_response_def boundary_handle_def boundary_handle_first_def
  boundary_listen_def boundary_listen_first_def to_Error_def message_or_default_def
  headers_of_def headers_set_def toLowerCase_def toLowerCase_char_def fromEntries_def
  json_quote_def json_escape_char_def new_response_def

lemmas handler_eval = throw_def report_error_def proceed_def proceed_twice_def do_nothing_def
  reply_json_def reply_text_def set_header_then_proceed_def res_json_def res_text_def
  res_header_def res_status_def






lemma to_Error_idem: "to_Error (to_Error x) = to_Error x"
  by (cases x) (simp_all add: to_Error_def)

lemma boundary_handle_to_Error: "boundary_handle (to_Error x) = boundary_handle x"
  by (simp add: boundary_handle_def to_Error_idem)





lemma errorNext_first:
  assumes "ehs \<noteq> []"
  shows "\<exists>js. events (cursor_of (errorNext error ehs (c\<lparr>index := 0\<rparr>) w)) =
           events c @ RanError 0 error # map (\<lambda>k. RanError k error) js"
proof -
  from assms obtain n where n: "length ehs = Suc n"
    by (cases ehs) simp_all
  from chain_next_first_event [of "c\<lparr>index := 0\<rparr>" "map (\<lambda>h. h error) ehs" n
      "\<lambda>k. RanError k error" "Some error" "\<lambda>e. e" w] assms n
  show ?thesis
    by (simp add: errorNext_def)
qed


lemma handle_catch_thrown:
  "handle_catch [] (Some err, c, w) = \<lparr>response = boundary_handle err, trace = events c\<rparr>"
  "ehs \<noteq> [] \<Longrightarrow> \<exists>js. trace (handle_catch ehs (Some err, c, w)) =
      events c @ RanError 0 (to_Error err) # map (\<lambda>k. RanError k (to_Error err)) js"
proof -
  show "handle_catch [] (Some err, c, w) = \<lparr>response = boundary_handle err, trace = events c\<rparr>"
    by (simp add: handle_catch_def boundary_handle_to_Error)
next
  assume ne: "ehs \<noteq> []"
  let ?s = "errorNext (to_Error err) ehs (c\<lparr>index := 0\<rparr>) w"
  have "trace (handle_catch ehs (Some err, c, w)) = events (cursor_of ?s)"
    using ne by (cases ?s; cases "fst ?s") (simp_all add: handle_catch_def Let_def)
  with errorNext_first [OF ne, of "to_Error err" c w]
  show "\<exists>js. trace (handle_catch ehs (Some err, c, w)) =
      events c @ RanError 0 (to_Error err) # map (\<lambda>k. RanError k (to_Error err)) js"
    by simp
qed





section \<open>Properties of the error path\<close>













text \<open>
  C5.  When no route matches, \<^verbatim>\<open>listen\<close> (both copies) answers 404 with
  \<^verbatim>\<open>{"error":"Not Found"}\<close> from its top-level boundary and invokes no error handler: the
  \<^verbatim>\<open>throw\<close> stands before the inner \<^verbatim>\<open>try\<close>.  The second copy's \<^verbatim>\<open>handle\<close> does what
  the claim says: its first error handler is called with \<^verbatim>\<open>HalinError(404, 'Not Found')\<close>.
\<close>

theorem not_found_reaches_error_chain_in_handle_only:
  assumes "findRoute app (raw_method rq) (pathname rq) = None"
  shows "listen_served app node_env rq =
           \<lparr>response = json_response 404 (JObj [(''error'', JStr ''Not Found'')]), trace = []\<rparr>
       \<and> listen_first_served app rq =
           \<lparr>response = json_response 404 (JObj [(''error'', JStr ''Not Found'')]), trace = []\<rparr>
       \<and> (errorHandlers app \<noteq> [] \<longrightarrow>
            (\<exists>js. trace (handle_served app rq) =
               RanError 0 (HalinError 404 ''Not Found'')
                 # map (\<lambda>k. RanError k (HalinError 404 ''Not Found'')) js))"
proof -
  have l: "listen_served app node_env rq =
           \<lparr>response = json_response 404 (JObj [(''error'', JStr ''Not Found'')]), trace = []\<rparr>"
    using assms by (simp add: listen_served_def boundary_listen_def to_Error_def)
  have lf: "listen_first_served app rq =
           \<lparr>response = json_response 404 (JObj [(''error'', JStr ''Not Found'')]), trace = []\<rparr>"
    using assms by (simp add: listen_first_served_def boundary_listen_first_def)
  have h: "\<exists>js. trace (handle_served app rq) =
               RanError 0 (HalinError 404 ''Not Found'')
                 # map (\<lambda>k. RanError k (HalinError 404 ''Not Found'')) js"
    if ne: "errorHandlers app \<noteq> []"
  proof -
    have "handle_served app rq =
          handle_catch (errorHandlers app) (Some (HalinError 404 ''Not Found''), start, new_world rq)"
      using assms by (simp add: handle_served_def handle_try_def)
    with handle_catch_thrown(2) [OF ne, of "HalinError 404 ''Not Found''" start "new_world rq"]
    show ?thesis
      by (simp add: to_Error_def start_def)
  qed
  from l lf h show ?thesis
    by blast
qed

theorem not_found_reaches_error_chain_in_handle_only_witness:
  \<open>findRoute (use [Arity4 report_error] new_Halin) (raw_method (get_request ''/missing''))
      (pathname (get_request ''/missing'')) = None
   \<and> errorHandlers (use [Arity4 report_error] new_Halin) \<noteq> []
   \<and> listen (use [Arity4 report_error] new_Halin) None (get_request ''/missing'') =
       \<lparr>status = 404, wire_headers = [''content-type'' \<mapsto> ''application/json''],
        wire_body = BText ''{"error":"Not Found"}''\<rparr>
   \<and> trace (listen_served (use [Arity4 report_error] new_Halin) None (get_request ''/missing'')) = []
   \<and> trace (handle_served (use [Arity4 report_error] new_Halin) (get_request ''/missing'')) =
       [RanError 0 (HalinError 404 ''Not Found'')]
   \<and> handle (use [Arity4 report_error] new_Halin) (get_request ''/missing'') =
       \<lparr>status = 500, wire_headers = [''content-type'' \<mapsto> ''application/json''],
        wire_body = BText ''{"error":"Not Found"}''\<rparr>\<close>
proof -
  let ?app = "use [Arity4 report_error] new_Halin"
  let ?rq = "get_request ''/missing''"
  have nf: "findRoute ?app (raw_method ?rq) (pathname ?rq) = None"
    by (simp add: findRoute_def use_def use1_def new_Halin_def)
  have ne: "errorHandlers ?app \<noteq> []"
    by (simp add: use_def use1_def new_Halin_def)
  from not_found_reaches_error_chain_in_handle_only [OF nf, of None]
  have "listen_served ?app None ?rq =
           \<lparr>response = json_response 404 (JObj [(''error'', JStr ''Not Found'')]), trace = []\<rparr>"
    by simp
  then have l: \<open>listen ?app None ?rq =
       \<lparr>status = 404, wire_headers = [''content-type'' \<mapsto> ''application/json''],
        wire_body = BText ''{"error":"Not Found"}''\<rparr>\<close>
    and lt: "trace (listen_served ?app None ?rq) = []"
    by (simp_all add: listen_def json_response_def headers_of_def headers_set_def toLowerCase_def
        toLowerCase_char_def json_quote_def json_escape_char_def)
  have h: \<open>trace (handle_served ?app ?rq) = [RanError 0 (HalinError 404 ''Not Found'')]\<close>
    \<open>handle ?app ?rq =
       \<lparr>status = 500, wire_headers = [''content-type'' \<mapsto> ''application/json''],
        wire_body = BText ''{"error":"Not Found"}''\<rparr>\<close>
    by (simp_all add: reg_eval chain_eval entry_eval handler_eval)
  from nf ne l lt h show ?thesis
    by simp
qed


end
